theory Spec2Isabelle
  imports Main "HOL-Library.Product_Lexorder"
begin

section \<open>Python values, dictionaries and exceptions\<close>

text \<open>
  The handlers exchange Python dictionaries with their collaborators and read them with
  \<^verbatim>\<open>d.get(key, default)\<close> and \<^verbatim>\<open>d[key]\<close>. A dictionary literal is an association
  list in the order the source writes its keys; \<open>truthy\<close> is Python's truth value, used
  by \<^verbatim>\<open>if x\<close>, \<^verbatim>\<open>not x\<close> and \<^verbatim>\<open>x or y\<close>.
\<close>

datatype pyval =
    PNone
  | PBool bool
  | PInt int
  | PStr string
  | PList "pyval list"
  | PDict "(string \<times> pyval) list"

type_synonym pydict = "(string \<times> pyval) list"

fun truthy :: "pyval \<Rightarrow> bool" where
  "truthy PNone = False"
| "truthy (PBool b) = b"
| "truthy (PInt i) = (i \<noteq> 0)"
| "truthy (PStr s) = (s \<noteq> [])"
| "truthy (PList xs) = (xs \<noteq> [])"
| "truthy (PDict d) = (d \<noteq> [])"

datatype error =
    KeyError string
  | AttributeError string
  | TypeError string
  | ValidationError string
  | CollaboratorError string

text \<open>\<^verbatim>\<open>d.get(k, dflt)\<close>; \<^verbatim>\<open>d.get(k)\<close> is \<open>dict_get d k PNone\<close>.\<close>

definition dict_get :: "pydict \<Rightarrow> string \<Rightarrow> pyval \<Rightarrow> pyval" where
  "dict_get d k dflt = (case map_of d k of None \<Rightarrow> dflt | Some v \<Rightarrow> v)"

text \<open>\<^verbatim>\<open>d[k]\<close> raises KeyError on a missing key.\<close>

definition dict_index :: "pydict \<Rightarrow> string \<Rightarrow> error + pyval" where
  "dict_index d k = (case map_of d k of None \<Rightarrow> Inl (KeyError k) | Some v \<Rightarrow> Inr v)"

section \<open>Booking: \<^verbatim>\<open>handle_book_appointment\<close>\<close>

text \<open>
  The handler talks to four collaborators whose code is not part of the excerpted
  sources: \<^verbatim>\<open>extract_patient_data\<close>, the calendar service's
  \<^verbatim>\<open>check_availability\<close> as obtained from \<^verbatim>\<open>get_calendar_service()\<close>,
  \<^verbatim>\<open>send_confirmation_email\<close> and \<^verbatim>\<open>create_calendar_event\<close>. What each of them
  returns (a dictionary, or an exception) is a parameter of the model.
\<close>

record services =
  extract_patient_data :: "pydict \<Rightarrow> error + pydict"
  calendar_check :: "pyval \<Rightarrow> pyval \<Rightarrow> error + pydict"
  gmail_send :: "pydict \<Rightarrow> error + pydict"
  calendar_insert :: "pydict \<Rightarrow> error + pydict"

text \<open>
  The observable world of one booking: the events on the calendar, the confirmation
  emails delivered, the call records logged, the results handed to
  \<^verbatim>\<open>params.result_callback\<close>, and the sequence of collaborator calls in the order
  the handler makes them.
\<close>

datatype effect =
    CheckAvailability pyval pyval
  | SendConfirmationEmail pydict
  | CreateCalendarEvent pydict
  | LogCallRecord pydict
  | ResultCallback pydict

record world =
  calendar :: "pydict list"
  outbox :: "pydict list"
  call_log :: "pydict list"
  callbacks :: "pydict list"
  trace :: "effect list"

definition check_availability_call ::
  "services \<Rightarrow> pyval \<Rightarrow> pyval \<Rightarrow> world \<Rightarrow> (error + pydict) \<times> world" where
  "check_availability_call sv appointment_date appointment_time w =
     (calendar_check sv appointment_date appointment_time,
      w\<lparr>trace := trace w @ [CheckAvailability appointment_date appointment_time]\<rparr>)"

text \<open>
  A confirmation email reaches the outbox when the collaborator reports success
  (\<^verbatim>\<open>GmailService.send_appointment_confirmation\<close> returns \<^verbatim>\<open>{'success': False, ...}\<close>
  when the send fails); likewise an event is on the calendar when the insertion
  reports success.
\<close>

definition send_confirmation_email ::
  "services \<Rightarrow> pydict \<Rightarrow> world \<Rightarrow> (error + pydict) \<times> world" where
  "send_confirmation_email sv patient_data w =
     (let w1 = w\<lparr>trace := trace w @ [SendConfirmationEmail patient_data]\<rparr>
      in case gmail_send sv patient_data of
           Inl e \<Rightarrow> (Inl e, w1)
         | Inr r \<Rightarrow>
             (Inr r,
              if truthy (dict_get r ''success'' PNone)
              then w1\<lparr>outbox := outbox w1 @ [patient_data]\<rparr>
              else w1))"

definition create_calendar_event ::
  "services \<Rightarrow> pydict \<Rightarrow> world \<Rightarrow> (error + pydict) \<times> world" where
  "create_calendar_event sv patient_data w =
     (let w1 = w\<lparr>trace := trace w @ [CreateCalendarEvent patient_data]\<rparr>
      in case calendar_insert sv patient_data of
           Inl e \<Rightarrow> (Inl e, w1)
         | Inr r \<Rightarrow>
             (Inr r,
              if truthy (dict_get r ''success'' PNone)
              then w1\<lparr>calendar := calendar w1 @ [patient_data]\<rparr>
              else w1))"

definition log_call_record :: "pydict \<Rightarrow> world \<Rightarrow> world" where
  "log_call_record patient_data w =
     w\<lparr>call_log := call_log w @ [patient_data],
       trace := trace w @ [LogCallRecord patient_data]\<rparr>"

definition result_callback :: "pydict \<Rightarrow> world \<Rightarrow> world" where
  "result_callback r w =
     w\<lparr>callbacks := callbacks w @ [r], trace := trace w @ [ResultCallback r]\<rparr>"

text \<open>The two dictionaries the handler reports.\<close>

definition slot_unavailable_result :: "pydict \<Rightarrow> pydict" where
  "slot_unavailable_result availability_check =
     [(''success'', PBool False),
      (''available'', PBool False),
      (''message'', PStr ''Time slot no longer available''),
      (''alternatives'', dict_get availability_check ''alternatives'' (PList []))]"

definition booking_result :: "pydict \<Rightarrow> pydict \<Rightarrow> pydict \<Rightarrow> pydict" where
  "booking_result email_result calendar_result patient_data =
     [(''success'', PBool True),
      (''message'', PStr ''Appointment confirmed''),
      (''email_sent'', dict_get email_result ''success'' PNone),
      (''calendar_added'', dict_get calendar_result ''success'' PNone),
      (''appointment_details'', PDict patient_data)]"

text \<open>
  \<^verbatim>\<open>handle_book_appointment\<close>. The result is the exception that left the handler (if
  any) and the world it leaves behind; Python undoes nothing when an exception
  propagates.
\<close>

definition commit_booking :: "services \<Rightarrow> pydict \<Rightarrow> world \<Rightarrow> error option \<times> world" where
  "commit_booking sv patient_data w1 =
     (case send_confirmation_email sv patient_data w1 of
        (Inl e, w2) \<Rightarrow> (Some e, w2)
      | (Inr email_result, w2) \<Rightarrow>
          (case create_calendar_event sv patient_data w2 of
             (Inl e, w3) \<Rightarrow> (Some e, w3)
           | (Inr calendar_result, w3) \<Rightarrow>
               (None,
                result_callback (booking_result email_result calendar_result patient_data)
                  (log_call_record patient_data w3))))"

definition handle_book_appointment ::
  "services \<Rightarrow> pydict \<Rightarrow> world \<Rightarrow> error option \<times> world" where
  "handle_book_appointment sv arguments w =
     (case extract_patient_data sv arguments of
        Inl e \<Rightarrow> (Some e, w)
      | Inr patient_data \<Rightarrow>
          (case dict_index patient_data ''date'' of
             Inl e \<Rightarrow> (Some e, w)
           | Inr appointment_date \<Rightarrow>
               (case dict_index patient_data ''time'' of
                  Inl e \<Rightarrow> (Some e, w)
                | Inr appointment_time \<Rightarrow>
                    (case check_availability_call sv appointment_date appointment_time w of
                       (Inl e, w1) \<Rightarrow> (Some e, w1)
                     | (Inr availability_check, w1) \<Rightarrow>
                         if \<not> truthy (dict_get availability_check ''available'' (PBool True))
                         then (None, result_callback (slot_unavailable_result availability_check) w1)
                         else commit_booking sv patient_data w1))))"

section \<open>Session memory and call records\<close>

text \<open>
  The arguments of a function call are the string properties of its schema;
  \<^verbatim>\<open>arguments.get(k)\<close> is \<open>None\<close> for a key that was not sent. A patient row of the
  durable sheet is the list of its cells, so an empty row is false where the source
  tests \<^verbatim>\<open>if patient_record:\<close>; \<^verbatim>\<open>convert_to_dict\<close> is not part of the excerpted
  sources and is a parameter.
\<close>

type_synonym arguments = "string \<rightharpoonup> string"

type_synonym patient_record = "string list"

text \<open>
  An attribute that \<^verbatim>\<open>__init__\<close> does not assign exists only once some method has
  assigned it; reading it before that raises AttributeError.
\<close>

datatype 'a attribute = Absent | Present 'a

record call_record =
  call_id :: string
  session_id :: string
  timestamp :: int
  caller_phone :: "string option"
  customer_name :: "string option"
  customer_email :: "string option"
  language :: string
  call_type :: string
  status :: string
  customer_type :: "(string \<times> pydict option) attribute"
  department_enquired :: "string attribute"
  doctor_enquired :: "string attribute"
  start_time :: "int option attribute"
  duration_seconds :: "int attribute"

text \<open>\<^verbatim>\<open>CallRecord.__init__\<close>; the uuid and the clock reading are parameters.\<close>

definition CallRecord_init :: "string \<Rightarrow> int \<Rightarrow> string \<Rightarrow> string option \<Rightarrow> call_record" where
  "CallRecord_init uuid now sid phone =
     \<lparr>call_id = uuid, session_id = sid, timestamp = now, caller_phone = phone,
      customer_name = Some [], customer_email = Some [], language = ''english'',
      call_type = ''inquiry'', status = ''in_progress'',
      customer_type = Absent, department_enquired = Absent, doctor_enquired = Absent,
      start_time = Absent, duration_seconds = Absent\<rparr>"

text \<open>
  The module-level dictionaries \<^verbatim>\<open>active_sessions\<close>, \<^verbatim>\<open>session_call_records\<close> and
  \<^verbatim>\<open>patient_database\<close>, the global \<^verbatim>\<open>global_sheets_service\<close> (\<open>None\<close> when no sheet
  service is configured, otherwise its \<^verbatim>\<open>get_patient_by_phone\<close>), and the call records
  that \<^verbatim>\<open>_save_call_record\<close> has persisted.
\<close>

record state =
  active_sessions :: "string \<rightharpoonup> pydict"
  session_call_records :: "string \<rightharpoonup> call_record"
  patient_database :: "string option \<rightharpoonup> pydict"
  global_sheets_service :: "(string option \<Rightarrow> patient_record option) option"
  saved_call_records :: "call_record list"

definition detect_customer_type ::
  "(patient_record \<Rightarrow> pydict) \<Rightarrow> string option \<Rightarrow> state \<Rightarrow> (string \<times> pydict option) \<times> state" where
  "detect_customer_type convert_to_dict phone_number st =
     (case patient_database st phone_number of
        Some cached \<Rightarrow> ((''existing'', Some cached), st)
      | None \<Rightarrow>
          (case global_sheets_service st of
             None \<Rightarrow> ((''new'', None), st)
           | Some get_patient_by_phone \<Rightarrow>
               (case get_patient_by_phone phone_number of
                  None \<Rightarrow> ((''new'', None), st)
                | Some patient_record \<Rightarrow>
                    if patient_record \<noteq> [] then
                      (let d = convert_to_dict patient_record
                       in ((''returning'', Some d),
                           st\<lparr>patient_database := (patient_database st)(phone_number \<mapsto> d)\<rparr>))
                    else ((''new'', None), st))))"

text \<open>Truth value of an optional string, and \<^verbatim>\<open>x or y\<close> on such values.\<close>

definition str_truthy :: "string option \<Rightarrow> bool" where
  "str_truthy x = (case x of None \<Rightarrow> False | Some s \<Rightarrow> s \<noteq> [])"

definition py_or :: "string option \<Rightarrow> string option \<Rightarrow> string option" where
  "py_or x y = (if str_truthy x then x else y)"

definition update_call_record_from_function ::
  "(patient_record \<Rightarrow> pydict) \<Rightarrow> string \<Rightarrow> string \<Rightarrow> arguments \<Rightarrow> state \<Rightarrow> state" where
  "update_call_record_from_function convert_to_dict sid function_name arguments st =
     (case session_call_records st sid of
        None \<Rightarrow> st
      | Some call_record \<Rightarrow>
          if function_name \<in> set [''book_appointment'', ''send_appointment_email''] then
            (let phone = arguments ''phone'';
                 patient_name = arguments ''patient_name'';
                 email = arguments ''email'';
                 (ctype, st1) = detect_customer_type convert_to_dict phone st;
                 r1 = call_record
                   \<lparr>customer_name := py_or patient_name (customer_name call_record),
                    customer_email := py_or email (customer_email call_record),
                    caller_phone := py_or phone (caller_phone call_record),
                    customer_type := Present ctype,
                    call_type := ''appointment_booking''\<rparr>;
                 r2 = (case arguments ''department'' of
                         None \<Rightarrow> r1
                       | Some v \<Rightarrow> if v \<noteq> [] then r1\<lparr>department_enquired := Present v\<rparr> else r1);
                 r3 = (case arguments ''doctor_name'' of
                         None \<Rightarrow> r2
                       | Some v \<Rightarrow> if v \<noteq> [] then r2\<lparr>doctor_enquired := Present v\<rparr> else r2)
             in st1\<lparr>session_call_records := (session_call_records st1)(sid \<mapsto> r3)\<rparr>)
          else st)"

text \<open>
  \<^verbatim>\<open>SessionManager.create_session\<close>; the two uuids, the clock reading and the websocket
  are parameters.
\<close>

definition create_session ::
  "string \<Rightarrow> string \<Rightarrow> int \<Rightarrow> pyval \<Rightarrow> string \<Rightarrow> state \<Rightarrow> string \<times> state" where
  "create_session sid uuid now websocket voice_id st =
     (let session_data =
            [(''id'', PStr sid), (''websocket'', websocket), (''voice_id'', PStr voice_id),
             (''created_at'', PInt now), (''last_activity'', PInt now),
             (''status'', PStr ''active'')];
          call_record = CallRecord_init uuid now sid None
      in (sid,
          st\<lparr>active_sessions := (active_sessions st)(sid \<mapsto> session_data),
             session_call_records := (session_call_records st)(sid \<mapsto> call_record)\<rparr>))"

text \<open>
  Modelled from the spec: \<^verbatim>\<open>_save_call_record\<close> is not part of the excerpted sources;
  following the durable store's \<^verbatim>\<open>appendCallRecord(record)\<close> it appends the record to
  the persisted call records.
\<close>

definition save_call_record :: "call_record \<Rightarrow> state \<Rightarrow> state" where
  "save_call_record r st = st\<lparr>saved_call_records := saved_call_records st @ [r]\<rparr>"

definition forget_session :: "string \<Rightarrow> state \<Rightarrow> state" where
  "forget_session sid st =
     (if sid \<in> dom (active_sessions st)
      then st\<lparr>active_sessions := (active_sessions st)(sid := None)\<rparr>
      else st)"

text \<open>
  \<^verbatim>\<open>SessionManager.cleanup_session\<close>, with the reading of \<^verbatim>\<open>datetime.now()\<close> as a
  parameter. \<^verbatim>\<open>int((datetime.now() - start_time).total_seconds())\<close> goes through a
  floating-point number of seconds; the function \<open>elapsed_seconds\<close> from the two
  datetimes to that integer is a parameter too. The result is the exception that left
  the method (if any) and the state.
\<close>

definition cleanup_session ::
  "(int \<Rightarrow> int \<Rightarrow> int) \<Rightarrow> int \<Rightarrow> string \<Rightarrow> state \<Rightarrow> error option \<times> state" where
  "cleanup_session elapsed_seconds now sid st =
     (case session_call_records st sid of
        None \<Rightarrow> (None, forget_session sid st)
      | Some call_record \<Rightarrow>
          (case start_time call_record of
             Absent \<Rightarrow> (Some (AttributeError ''start_time''), st)
           | Present started \<Rightarrow>
               (let r = (case started of
                           None \<Rightarrow> call_record
                         | Some t0 \<Rightarrow>
                             call_record\<lparr>duration_seconds := Present (elapsed_seconds now t0)\<rparr>);
                    st1 = save_call_record r st;
                    st2 = st1\<lparr>session_call_records := (session_call_records st1)(sid := None)\<rparr>
                in (None, forget_session sid st2))))"

section \<open>Availability cache\<close>

text \<open>
  \<^verbatim>\<open>AvailabilityCache.check_availability(self, date, time)\<close>. Inside the method the name
  \<^verbatim>\<open>time\<close> is the parameter, so what each of the two \<^verbatim>\<open>time.time()\<close> expressions
  evaluates to (a clock reading, or the AttributeError of a plain string) is a parameter
  of the model: \<open>clock_lookup\<close> for the freshness test, \<open>clock_store\<close> for the stamp of
  a new entry. Only the order of clock readings matters; they are integers here. The
  third component of the result lists the calendar fetches the call has made.
\<close>

type_synonym availability_cache = "string \<rightharpoonup> (pydict \<times> int)"

definition cache_key :: "string \<Rightarrow> string \<Rightarrow> string" where
  "cache_key date time = ''availability_'' @ date @ ''_'' @ time"

definition fetch_fresh ::
  "(string \<Rightarrow> string \<Rightarrow> error + pydict) \<Rightarrow> (error + int) \<Rightarrow> string \<Rightarrow> string \<Rightarrow>
   availability_cache \<Rightarrow> (error + pydict) \<times> availability_cache \<times> (string \<times> string) list" where
  "fetch_fresh fetch_calendar_availability clock_store date time cache =
     (case fetch_calendar_availability date time of
        Inl e \<Rightarrow> (Inl e, cache, [(date, time)])
      | Inr result \<Rightarrow>
          if truthy (dict_get result ''available'' PNone) then
            (case clock_store of
               Inl e \<Rightarrow> (Inl e, cache, [(date, time)])
             | Inr now \<Rightarrow>
                 (Inr result, cache(cache_key date time \<mapsto> (result, now)), [(date, time)]))
          else (Inr result, cache, [(date, time)]))"

definition AvailabilityCache_check_availability ::
  "int \<Rightarrow> (string \<Rightarrow> string \<Rightarrow> error + pydict) \<Rightarrow> (error + int) \<Rightarrow> (error + int) \<Rightarrow>
   string \<Rightarrow> string \<Rightarrow> availability_cache \<Rightarrow>
   (error + pydict) \<times> availability_cache \<times> (string \<times> string) list" where
  "AvailabilityCache_check_availability ttl fetch_calendar_availability clock_lookup clock_store
       date time cache =
     (case cache (cache_key date time) of
        None \<Rightarrow> fetch_fresh fetch_calendar_availability clock_store date time cache
      | Some (cached_result, stamp) \<Rightarrow>
          (case clock_lookup of
             Inl e \<Rightarrow> (Inl e, cache, [])
           | Inr now \<Rightarrow>
               if now - stamp < ttl then (Inr cached_result, cache, [])
               else fetch_fresh fetch_calendar_availability clock_store date time cache))"

text \<open>The cache holds nothing but results whose \<^verbatim>\<open>available\<close> entry is true.\<close>

definition only_available_cached :: "availability_cache \<Rightarrow> bool" where
  "only_available_cached cache =
     (\<forall>k r stamp. cache k = Some (r, stamp) \<longrightarrow> truthy (dict_get r ''available'' PNone))"

section \<open>Calendar: conflicts, alternatives and the availability check\<close>

text \<open>
  Datetimes of the calendar are minutes since the epoch (day \<open>0\<close> is a Thursday), so the
  date of a datetime is \<open>t div 1440\<close> and its time of day \<open>t mod 1440\<close>.
\<close>

record event =
  event_id :: string
  event_start :: int
  event_end :: int
  event_patient :: string
  event_email :: string
  event_doctor :: string

record slot =
  slot_date :: int
  slot_time :: int
  duration_minutes :: int
  doctor_name :: "string option"

record schedule_config =
  work_start :: int
  work_end :: int
  step_minutes :: nat
  default_duration :: int
  non_working_weekdays :: "nat list"

text \<open>
  Modelled from the spec: \<^verbatim>\<open>CalendarService._check_time_conflicts\<close> is not part of the
  excerpted sources. Two intervals conflict if they overlap by any positive duration;
  the conflicts of a request are the listed events that conflict with its interval.
\<close>

definition overlap_minutes :: "int \<Rightarrow> int \<Rightarrow> int \<Rightarrow> int \<Rightarrow> int" where
  "overlap_minutes s1 e1 s2 e2 = min e1 e2 - max s1 s2"

definition intervals_conflict :: "int \<Rightarrow> int \<Rightarrow> int \<Rightarrow> int \<Rightarrow> bool" where
  "intervals_conflict s1 e1 s2 e2 = (0 < overlap_minutes s1 e1 s2 e2)"

definition check_time_conflicts :: "event list \<Rightarrow> int \<Rightarrow> int \<Rightarrow> event list" where
  "check_time_conflicts events start_datetime end_datetime =
     filter (\<lambda>ev. intervals_conflict (event_start ev) (event_end ev) start_datetime end_datetime)
       events"

definition slot_begin :: "slot \<Rightarrow> int" where
  "slot_begin s = slot_date s * 1440 + slot_time s"

definition slot_finish :: "slot \<Rightarrow> int" where
  "slot_finish s = slot_begin s + duration_minutes s"

definition slots_conflict :: "slot \<Rightarrow> slot \<Rightarrow> bool" where
  "slots_conflict a b =
     intervals_conflict (slot_begin a) (slot_finish a) (slot_begin b) (slot_finish b)"

text \<open>Python's \<^verbatim>\<open>date.weekday()\<close>: Monday is 0, Sunday is 6.\<close>

definition weekday :: "int \<Rightarrow> nat" where
  "weekday day = nat ((day + 3) mod 7)"

definition within_working_hours :: "schedule_config \<Rightarrow> slot \<Rightarrow> bool" where
  "within_working_hours cfg s =
     (weekday (slot_date s) \<notin> set (non_working_weekdays cfg)
      \<and> work_start cfg \<le> slot_time s
      \<and> slot_time s + duration_minutes s \<le> work_end cfg)"

text \<open>
  Modelled from the spec: \<^verbatim>\<open>CalendarService._suggest_alternative_slots\<close> is not part of
  the excerpted sources. \<open>suggest\<close> scans forward from the requested date for
  \<open>window_days\<close> days in steps of \<open>step_minutes\<close> within working hours, keeps the
  candidates that pass the conflict check against the calendar on their own (a calendar
  failure counts as not free), ranks them by date distance, time-of-day distance and
  doctor match, validates them against each other in ranked order, and returns the
  first \<open>count\<close>.
\<close>

definition day_grid :: "schedule_config \<Rightarrow> string option \<Rightarrow> int \<Rightarrow> slot list" where
  "day_grid cfg doctor day =
     (if step_minutes cfg = 0 then []
      else map (\<lambda>k. \<lparr>slot_date = day,
                      slot_time = work_start cfg + int k * int (step_minutes cfg),
                      duration_minutes = default_duration cfg,
                      doctor_name = doctor\<rparr>)
             [0 ..< nat (work_end cfg - work_start cfg) div step_minutes cfg + 1])"

definition candidate_slots :: "schedule_config \<Rightarrow> string option \<Rightarrow> int \<Rightarrow> nat \<Rightarrow> slot list" where
  "candidate_slots cfg doctor day0 window_days =
     filter (within_working_hours cfg)
       (concat (map (\<lambda>k. day_grid cfg doctor (day0 + int k)) [0 ..< window_days]))"

definition doctor_matches :: "string option \<Rightarrow> event \<Rightarrow> bool" where
  "doctor_matches doctor ev = (case doctor of None \<Rightarrow> True | Some d \<Rightarrow> event_doctor ev = d)"

definition slot_is_free :: "(int \<Rightarrow> int \<Rightarrow> error + event list) \<Rightarrow> slot \<Rightarrow> bool" where
  "slot_is_free list_events s =
     (case list_events (slot_begin s) (slot_finish s) of
        Inl e \<Rightarrow> False
      | Inr events \<Rightarrow>
          check_time_conflicts (filter (doctor_matches (doctor_name s)) events)
            (slot_begin s) (slot_finish s) = [])"

definition rank_key :: "int \<Rightarrow> int \<Rightarrow> string option \<Rightarrow> slot \<Rightarrow> nat \<times> nat \<times> nat" where
  "rank_key day0 time0 doctor s =
     (nat \<bar>slot_date s - day0\<bar>, nat \<bar>slot_time s - time0\<bar>,
      (if doctor = None \<or> doctor_name s = doctor then 0 else 1))"

fun keep_consistent :: "slot list \<Rightarrow> slot list \<Rightarrow> slot list" where
  "keep_consistent kept [] = kept"
| "keep_consistent kept (c # cs) =
     (if list_ex (\<lambda>k. slots_conflict k c) kept then keep_consistent kept cs
      else keep_consistent (kept @ [c]) cs)"

definition suggest ::
  "schedule_config \<Rightarrow> (int \<Rightarrow> int \<Rightarrow> error + event list) \<Rightarrow> int \<Rightarrow> int \<Rightarrow> string option \<Rightarrow>
   nat \<Rightarrow> nat \<Rightarrow> slot list" where
  "suggest cfg list_events day0 time0 doctor window_days count =
     take count
       (keep_consistent []
          (sort_key (rank_key day0 time0 doctor)
             (filter (slot_is_free list_events)
                (candidate_slots cfg doctor day0 window_days))))"

definition suggest_alternative_slots ::
  "schedule_config \<Rightarrow> (int \<Rightarrow> int \<Rightarrow> error + event list) \<Rightarrow> int \<Rightarrow> event list \<Rightarrow> slot list" where
  "suggest_alternative_slots cfg list_events start_datetime conflicts =
     suggest cfg list_events (start_datetime div 1440) (start_datetime mod 1440) None 7 5"

fun mutually_free :: "slot list \<Rightarrow> bool" where
  "mutually_free [] = True"
| "mutually_free (s # ss) = (list_all (\<lambda>t. \<not> slots_conflict s t) ss \<and> mutually_free ss)"

text \<open>How events and slots appear inside a result dictionary.\<close>

definition event_to_py :: "event \<Rightarrow> pyval" where
  "event_to_py ev =
     PDict [(''id'', PStr (event_id ev)), (''start'', PInt (event_start ev)),
            (''end'', PInt (event_end ev)), (''summary'', PStr (event_patient ev))]"

definition slot_to_py :: "slot \<Rightarrow> pyval" where
  "slot_to_py s =
     PDict [(''date'', PInt (slot_date s)), (''time'', PInt (slot_time s)),
            (''duration_minutes'', PInt (duration_minutes s)),
            (''doctor_name'', (case doctor_name s of None \<Rightarrow> PNone | Some d \<Rightarrow> PStr d))]"

text \<open>
  \<^verbatim>\<open>CalendarService.check_availability\<close>. \<^verbatim>\<open>_parse_appointment_datetime\<close> and the
  calendar API's \<^verbatim>\<open>events().list(timeMin, timeMax).execute()\<close> are parameters; either
  may raise.
\<close>

definition CalendarService_check_availability ::
  "schedule_config \<Rightarrow> (string \<Rightarrow> string \<Rightarrow> error + int) \<Rightarrow> (int \<Rightarrow> int \<Rightarrow> error + event list) \<Rightarrow>
   string \<Rightarrow> string \<Rightarrow> int \<Rightarrow> error + pydict" where
  "CalendarService_check_availability cfg parse_appointment_datetime list_events
       appointment_date appointment_time duration =
     (case parse_appointment_datetime appointment_date appointment_time of
        Inl e \<Rightarrow> Inl e
      | Inr start_datetime \<Rightarrow>
          (let end_datetime = start_datetime + duration
           in case list_events start_datetime end_datetime of
                Inl e \<Rightarrow> Inl e
              | Inr events \<Rightarrow>
                  (let conflicts = check_time_conflicts events start_datetime end_datetime
                   in if conflicts = [] then
                        Inr [(''success'', PBool True),
                             (''available'', PBool True),
                             (''message'', PStr ''Time slot is available'')]
                      else
                        (let alternatives =
                               suggest_alternative_slots cfg list_events start_datetime conflicts
                         in Inr [(''success'', PBool True),
                                 (''available'', PBool False),
                                 (''conflicts'', PList (map event_to_py conflicts)),
                                 (''alternatives'', PList (map slot_to_py alternatives))]))))"

text \<open>
  The call \<^verbatim>\<open>calendar_service.check_availability(appointment_date=..., appointment_time=...)\<close>
  of the booking handler: the duration takes its default of 30 minutes, and a date or
  time that is not a string makes the datetime parser raise.
\<close>

definition calendar_service ::
  "schedule_config \<Rightarrow> (string \<Rightarrow> string \<Rightarrow> error + int) \<Rightarrow> (int \<Rightarrow> int \<Rightarrow> error + event list) \<Rightarrow>
   pyval \<Rightarrow> pyval \<Rightarrow> error + pydict" where
  "calendar_service cfg parse_appointment_datetime list_events appointment_date appointment_time =
     (case (appointment_date, appointment_time) of
        (PStr d, PStr t) \<Rightarrow>
          CalendarService_check_availability cfg parse_appointment_datetime list_events d t 30
      | _ \<Rightarrow> Inl (TypeError ''appointment date and time must be strings''))"

section \<open>Cancellation\<close>

text \<open>
  Modelled from the spec: \<^verbatim>\<open>handle_cancel_appointment\<close> is registered in the function
  registry but its code is not part of the excerpted sources. \<open>cancel\<close> locates the
  calendar events on the requested date, for the given doctor or any doctor if none is
  given, whose time of day is within 15 minutes of the requested time, whose stored
  patient name equals the given name up to letter case and, if an email is supplied,
  whose stored email equals it. On a match it removes the event, sends a cancellation
  notice and marks the call record; otherwise it reports not found and changes nothing.
\<close>

definition lower_char :: "char \<Rightarrow> char" where
  "lower_char c =
     (case map_of (zip ''ABCDEFGHIJKLMNOPQRSTUVWXYZ'' ''abcdefghijklmnopqrstuvwxyz'') c of
        None \<Rightarrow> c
      | Some l \<Rightarrow> l)"

definition lower :: "string \<Rightarrow> string" where
  "lower s = map lower_char s"

record cancel_request =
  req_patient_name :: string
  req_phone :: string
  req_date :: int
  req_time :: int
  req_doctor :: "string option"
  req_email :: "string option"

record cancellation_result =
  cancelled :: bool
  found :: bool

record clinic =
  appointments :: "event list"
  cancellation_notices :: "event list"
  active_call :: call_record

definition cancel_matches :: "cancel_request \<Rightarrow> event \<Rightarrow> bool" where
  "cancel_matches rq ev =
     (event_start ev div 1440 = req_date rq
      \<and> (case req_doctor rq of None \<Rightarrow> True | Some d \<Rightarrow> event_doctor ev = d)
      \<and> \<bar>event_start ev mod 1440 - req_time rq\<bar> \<le> 15
      \<and> lower (event_patient ev) = lower (req_patient_name rq)
      \<and> (case req_email rq of None \<Rightarrow> True | Some e \<Rightarrow> event_email ev = e))"

definition cancel :: "bool \<Rightarrow> cancel_request \<Rightarrow> clinic \<Rightarrow> cancellation_result \<times> clinic" where
  "cancel notice_sent rq c =
     (case find (cancel_matches rq) (appointments c) of
        None \<Rightarrow> (\<lparr>cancelled = False, found = False\<rparr>, c)
      | Some ev \<Rightarrow>
          (\<lparr>cancelled = True, found = True\<rparr>,
           c\<lparr>appointments := remove1 ev (appointments c),
             cancellation_notices :=
               (if notice_sent then cancellation_notices c @ [ev] else cancellation_notices c),
             active_call := (active_call c)\<lparr>call_type := ''cancellation'', status := ''resolved''\<rparr>\<rparr>))"

section \<open>Concrete inputs\<close>

definition demo_patient_data :: pydict where
  "demo_patient_data =
     [(''patient_name'', PStr ''John Smith''),
      (''email'', PStr ''john@example.com''),
      (''date'', PStr ''2025-03-10''),
      (''time'', PStr ''10:00 AM''),
      (''doctor_name'', PStr ''Dr. Rao''),
      (''department'', PStr ''Cardiology'')]"

definition demo_services :: "pydict \<Rightarrow> pydict \<Rightarrow> services" where
  "demo_services check_result email_result =
     \<lparr>extract_patient_data = (\<lambda>arguments. Inr arguments),
      calendar_check = (\<lambda>d t. Inr check_result),
      gmail_send = (\<lambda>pd. Inr email_result),
      calendar_insert = (\<lambda>pd. Inr [(''success'', PBool True)])\<rparr>"

definition empty_world :: world where
  "empty_world = \<lparr>calendar = [], outbox = [], call_log = [], callbacks = [], trace = []\<rparr>"

text \<open>\<open>precedes a b tr\<close>: \<open>b\<close> occurs in \<open>tr\<close> after the first occurrence of \<open>a\<close>.\<close>

definition precedes :: "effect \<Rightarrow> effect \<Rightarrow> effect list \<Rightarrow> bool" where
  "precedes a b tr = (b \<in> set (dropWhile (\<lambda>x. x \<noteq> a) tr))"

definition slot_available_result :: pydict where
  "slot_available_result =
     [(''success'', PBool True), (''available'', PBool True),
      (''message'', PStr ''Time slot is available'')]"

definition slot_busy_result :: pydict where
  "slot_busy_result =
     [(''success'', PBool True), (''available'', PBool False),
      (''conflicts'', PList [PStr ''10:00 AM'']),
      (''alternatives'', PList [PStr ''10:30 AM'', PStr ''11:00 AM''])]"

definition email_ok_result :: pydict where
  "email_ok_result = [(''success'', PBool True), (''message_id'', PStr ''m-1'')]"

definition email_failed_result :: pydict where
  "email_failed_result = [(''success'', PBool False), (''error'', PStr ''send failed'')]"


text \<open>The availability an answer of the calendar service reports, if it is an answer.\<close>

definition answer_available :: "error + pydict \<Rightarrow> bool option" where
  "answer_available res =
     (case res of Inl e \<Rightarrow> None | Inr d \<Rightarrow> Some (truthy (dict_get d ''available'' PNone)))"

text \<open>Session memory: one patient in the durable sheet, one active session.\<close>

definition demo_phone :: "string option" where
  "demo_phone = Some ''+91-9876543210''"

definition demo_row :: patient_record where
  "demo_row = [''+91-9876543210'', ''John Smith'', ''john@example.com'']"

definition demo_convert :: "patient_record \<Rightarrow> pydict" where
  "demo_convert row = zip [''phone'', ''name'', ''email''] (map PStr row)"

definition demo_sheet :: "string option \<Rightarrow> patient_record option" where
  "demo_sheet p = (if p = demo_phone then Some demo_row else None)"

definition empty_state :: state where
  "empty_state =
     \<lparr>active_sessions = Map.empty, session_call_records = Map.empty,
      patient_database = Map.empty, global_sheets_service = Some demo_sheet,
      saved_call_records = []\<rparr>"

definition demo_call_record :: call_record where
  "demo_call_record = (CallRecord_init ''c-1'' 0 ''s-1'' None)\<lparr>start_time := Present (Some 0)\<rparr>"

definition demo_session_state :: state where
  "demo_session_state =
     empty_state\<lparr>active_sessions := [''s-1'' \<mapsto> [(''id'', PStr ''s-1'')]],
                 session_call_records := [''s-1'' \<mapsto> demo_call_record]\<rparr>"

text \<open>
  The calendar on Monday 2025-03-10 (day 20157): Dr. Rao sees John Smith from 10:00 to
  10:30.
\<close>

definition default_config :: schedule_config where
  "default_config = \<lparr>work_start = 540, work_end = 1080, step_minutes = 30, default_duration = 30,
     non_working_weekdays = [6]\<rparr>"

definition morning_config :: schedule_config where
  "morning_config = \<lparr>work_start = 540, work_end = 660, step_minutes = 30, default_duration = 30,
     non_working_weekdays = [6]\<rparr>"

definition booked_event :: event where
  "booked_event =
     \<lparr>event_id = ''e1'', event_start = 20157 * 1440 + 600, event_end = 20157 * 1440 + 630,
      event_patient = ''John Smith'', event_email = ''john@example.com'',
      event_doctor = ''Dr. Rao''\<rparr>"

definition demo_list_events :: "int \<Rightarrow> int \<Rightarrow> error + event list" where
  "demo_list_events time_min time_max =
     Inr (filter (\<lambda>ev. time_min < event_end ev \<and> event_start ev < time_max) [booked_event])"

definition demo_parse :: "string \<Rightarrow> string \<Rightarrow> error + int" where
  "demo_parse date time =
     (if date = ''2025-03-10'' \<and> time = ''10:00 AM'' then Inr (20157 * 1440 + 600)
      else if date = ''2025-03-10'' \<and> time = ''10:30 AM'' then Inr (20157 * 1440 + 630)
      else Inl (ValidationError ''unparsed''))"

definition failing_list_events :: "int \<Rightarrow> int \<Rightarrow> error + event list" where
  "failing_list_events time_min time_max = Inl (CollaboratorError ''calendar request failed'')"

definition calendar_backed_services :: "(int \<Rightarrow> int \<Rightarrow> error + event list) \<Rightarrow> services" where
  "calendar_backed_services list_events =
     \<lparr>extract_patient_data = (\<lambda>arguments. Inr arguments),
      calendar_check = calendar_service default_config demo_parse list_events,
      gmail_send = (\<lambda>pd. Inr email_ok_result),
      calendar_insert = (\<lambda>pd. Inr [(''success'', PBool True)])\<rparr>"

definition morning_slot :: "int \<Rightarrow> slot" where
  "morning_slot t = \<lparr>slot_date = 20157, slot_time = t, duration_minutes = 30, doctor_name = None\<rparr>"

definition demo_clinic :: clinic where
  "demo_clinic =
     \<lparr>appointments = [booked_event], cancellation_notices = [],
      active_call = CallRecord_init ''c-1'' 0 ''s-1'' None\<rparr>"

definition demo_cancel :: "int \<Rightarrow> cancel_request" where
  "demo_cancel t =
     \<lparr>req_patient_name = ''john SMITH'', req_phone = ''+91-9876543210'', req_date = 20157,
      req_time = t, req_doctor = Some ''Dr. Rao'', req_email = None\<rparr>"

definition demo_fetch :: "string \<Rightarrow> string \<Rightarrow> error + pydict" where
  "demo_fetch date time =
     (if time = ''10:00 AM'' then Inr slot_busy_result else Inr slot_available_result)"

definition demo_cache :: availability_cache where
  "demo_cache = [cache_key ''2025-03-10'' ''11:00 AM'' \<mapsto> (slot_available_result, 100)]"

section \<open>Booking: verify, then commit\<close>

text \<open>
  Claim C1, as the handler implements it. When \<^verbatim>\<open>extract_patient_data\<close> and the
  availability check return and the check's result carries an \<^verbatim>\<open>available\<close> entry:
  if that entry is false, the handler returns normally, reports
  \<^verbatim>\<open>success: False\<close> with the alternatives of the check, and attempts no commit side
  effect (calendar, outbox and call log are unchanged, and the only calls made are the
  check and the result callback); if it is true and the email and calendar
  collaborators return, the commit side effects are attempted in the order
  confirmation email, calendar event, call log, and the handler reports
  \<^verbatim>\<open>success: True\<close>.
\<close>

theorem book_verify_then_commit:
  assumes "extract_patient_data sv arguments = Inr pd"
      and "dict_index pd ''date'' = Inr d"
      and "dict_index pd ''time'' = Inr t"
      and "calendar_check sv d t = Inr chk"
      and "map_of chk ''available'' = Some a"
  shows "(\<not> truthy a \<longrightarrow>
            fst (handle_book_appointment sv arguments w) = None
            \<and> calendar (snd (handle_book_appointment sv arguments w)) = calendar w
            \<and> outbox (snd (handle_book_appointment sv arguments w)) = outbox w
            \<and> call_log (snd (handle_book_appointment sv arguments w)) = call_log w
            \<and> trace (snd (handle_book_appointment sv arguments w)) =
                trace w @ [CheckAvailability d t, ResultCallback (slot_unavailable_result chk)]
            \<and> callbacks (snd (handle_book_appointment sv arguments w)) =
                callbacks w @ [slot_unavailable_result chk]
            \<and> map_of (slot_unavailable_result chk) ''success'' = Some (PBool False)
            \<and> map_of (slot_unavailable_result chk) ''alternatives'' =
                Some (dict_get chk ''alternatives'' (PList [])))
       \<and> (truthy a \<longrightarrow> gmail_send sv pd = Inr er \<longrightarrow> calendar_insert sv pd = Inr cr \<longrightarrow>
            fst (handle_book_appointment sv arguments w) = None
            \<and> trace (snd (handle_book_appointment sv arguments w)) =
                trace w @ [CheckAvailability d t, SendConfirmationEmail pd,
                           CreateCalendarEvent pd, LogCallRecord pd,
                           ResultCallback (booking_result er cr pd)]
            \<and> map_of (booking_result er cr pd) ''success'' = Some (PBool True))"
  using assms
  by (simp add: handle_book_appointment_def commit_booking_def check_availability_call_def
       send_confirmation_email_def create_calendar_event_def log_call_record_def
       result_callback_def dict_get_def slot_unavailable_result_def booking_result_def Let_def)

text \<open>
  The hypotheses of the C1 theorem hold for a free slot and for a busy slot of the
  demonstration services.
\<close>

theorem book_verify_then_commit_witness:
  "trace (snd (handle_book_appointment (demo_services slot_available_result email_ok_result)
                 demo_patient_data empty_world)) =
     trace empty_world @
     [CheckAvailability (PStr ''2025-03-10'') (PStr ''10:00 AM''),
      SendConfirmationEmail demo_patient_data,
      CreateCalendarEvent demo_patient_data,
      LogCallRecord demo_patient_data,
      ResultCallback (booking_result email_ok_result [(''success'', PBool True)] demo_patient_data)]
   \<and> calendar (snd (handle_book_appointment (demo_services slot_busy_result email_ok_result)
                 demo_patient_data empty_world)) = calendar empty_world
   \<and> callbacks (snd (handle_book_appointment (demo_services slot_busy_result email_ok_result)
                 demo_patient_data empty_world)) =
       callbacks empty_world @ [slot_unavailable_result slot_busy_result]"
proof -
  let ?ok = "demo_services slot_available_result email_ok_result"
  let ?busy = "demo_services slot_busy_result email_ok_result"
  have d: "dict_index demo_patient_data ''date'' = Inr (PStr ''2025-03-10'')"
    and t: "dict_index demo_patient_data ''time'' = Inr (PStr ''10:00 AM'')"
    by (simp_all add: dict_index_def demo_patient_data_def)
  have ok: "extract_patient_data ?ok demo_patient_data = Inr demo_patient_data"
      "calendar_check ?ok (PStr ''2025-03-10'') (PStr ''10:00 AM'') = Inr slot_available_result"
      "map_of slot_available_result ''available'' = Some (PBool True)"
      "gmail_send ?ok demo_patient_data = Inr email_ok_result"
      "calendar_insert ?ok demo_patient_data = Inr [(''success'', PBool True)]"
    by (simp_all add: demo_services_def slot_available_result_def)
  have busy: "extract_patient_data ?busy demo_patient_data = Inr demo_patient_data"
      "calendar_check ?busy (PStr ''2025-03-10'') (PStr ''10:00 AM'') = Inr slot_busy_result"
      "map_of slot_busy_result ''available'' = Some (PBool False)"
    by (simp_all add: demo_services_def slot_busy_result_def)
  from book_verify_then_commit [OF ok(1) d t ok(2) ok(3),
      where er = email_ok_result and cr = "[(''success'', PBool True)]" and w = empty_world]
    book_verify_then_commit [OF busy(1) d t busy(2) busy(3), where w = empty_world]
    ok(4) ok(5)
  show ?thesis by simp
qed

text \<open>
  Claim C1 as stated asks for the calendar event to be created before the
  confirmation email is sent. For a free slot the handler sends the email first: the
  email does not come after the creation of the calendar event.
\<close>

theorem book_email_before_calendar_counterexample:
  "trace (snd (handle_book_appointment (demo_services slot_available_result email_ok_result)
       demo_patient_data empty_world)) =
     [CheckAvailability (PStr ''2025-03-10'') (PStr ''10:00 AM''),
      SendConfirmationEmail demo_patient_data,
      CreateCalendarEvent demo_patient_data,
      LogCallRecord demo_patient_data,
      ResultCallback (booking_result email_ok_result [(''success'', PBool True)] demo_patient_data)]
   \<and> \<not> precedes (CreateCalendarEvent demo_patient_data) (SendConfirmationEmail demo_patient_data)
        (trace (snd (handle_book_appointment (demo_services slot_available_result email_ok_result)
       demo_patient_data empty_world)))"
  by (simp add: handle_book_appointment_def commit_booking_def check_availability_call_def
       send_confirmation_email_def create_calendar_event_def log_call_record_def
       result_callback_def dict_index_def dict_get_def demo_services_def demo_patient_data_def
       empty_world_def slot_available_result_def email_ok_result_def precedes_def
       booking_result_def)

text \<open>
  When the availability check raises, the exception leaves the handler before any
  commit side effect is attempted.
\<close>

lemma book_check_exception_stops:
  assumes "extract_patient_data sv arguments = Inr pd"
      and "dict_index pd ''date'' = Inr d"
      and "dict_index pd ''time'' = Inr t"
      and "calendar_check sv d t = Inl e"
  shows "handle_book_appointment sv arguments w =
           (Some e, w\<lparr>trace := trace w @ [CheckAvailability d t]\<rparr>)"
  using assms by (simp add: handle_book_appointment_def check_availability_call_def)

text \<open>
  The repository's calendar service answers every request it does not fail on with an
  \<^verbatim>\<open>available\<close> entry that is \<open>True\<close> or \<open>False\<close>; it signals a failed parse or a failed
  calendar request by the exception.
\<close>

lemma calendar_service_answer:
  "calendar_service cfg parse list_events d t = Inr r \<Longrightarrow>
     map_of r ''available'' = Some (PBool True) \<or> map_of r ''available'' = Some (PBool False)"
  by (auto simp: calendar_service_def CalendarService_check_availability_def Let_def
        split: pyval.splits sum.splits if_splits)

lemma calendar_service_request_fails:
  "parse ds ts = Inr start \<Longrightarrow> list_events start (start + 30) = Inl e \<Longrightarrow>
     calendar_service cfg parse list_events (PStr ds) (PStr ts) = Inl e"
  by (simp add: calendar_service_def CalendarService_check_availability_def)

text \<open>
  Claim C2, for the booking handler on the repository's calendar service. When the
  availability check fails, the exception leaves the handler right after the check;
  when the check returns, its result says \<open>True\<close> or \<open>False\<close> for \<^verbatim>\<open>available\<close>, and
  unless it says \<open>True\<close> the handler reports the slot as unavailable. So whenever the
  check has not positively answered that the slot is available, calendar, outbox and
  call log are unchanged and neither the confirmation email nor the creation of the
  calendar event is attempted.
\<close>

theorem book_stops_unless_check_says_available:
  assumes "extract_patient_data sv arguments = Inr pd"
      and "dict_index pd ''date'' = Inr d"
      and "dict_index pd ''time'' = Inr t"
      and "calendar_check sv d t = calendar_service cfg parse list_events d t"
  shows "(\<forall>e. calendar_check sv d t = Inl e \<longrightarrow>
            handle_book_appointment sv arguments w =
              (Some e, w\<lparr>trace := trace w @ [CheckAvailability d t]\<rparr>))
       \<and> (\<forall>r. calendar_check sv d t = Inr r \<longrightarrow>
            (map_of r ''available'' = Some (PBool True)
               \<or> map_of r ''available'' = Some (PBool False))
            \<and> (map_of r ''available'' \<noteq> Some (PBool True) \<longrightarrow>
                 handle_book_appointment sv arguments w =
                   (None,
                    w\<lparr>callbacks := callbacks w @ [slot_unavailable_result r],
                      trace := trace w @ [CheckAvailability d t,
                                          ResultCallback (slot_unavailable_result r)]\<rparr>)))
       \<and> ((\<forall>r. calendar_check sv d t = Inr r \<longrightarrow> map_of r ''available'' \<noteq> Some (PBool True)) \<longrightarrow>
            calendar (snd (handle_book_appointment sv arguments w)) = calendar w
            \<and> outbox (snd (handle_book_appointment sv arguments w)) = outbox w
            \<and> call_log (snd (handle_book_appointment sv arguments w)) = call_log w
            \<and> SendConfirmationEmail pd \<notin>
                set (drop (length (trace w)) (trace (snd (handle_book_appointment sv arguments w))))
            \<and> CreateCalendarEvent pd \<notin>
                set (drop (length (trace w)) (trace (snd (handle_book_appointment sv arguments w)))))"
proof (intro conjI allI impI)
  fix e
  assume "calendar_check sv d t = Inl e"
  with assms(1-3) show "handle_book_appointment sv arguments w =
      (Some e, w\<lparr>trace := trace w @ [CheckAvailability d t]\<rparr>)"
    by (simp add: handle_book_appointment_def check_availability_call_def)
next
  fix r
  assume r: "calendar_check sv d t = Inr r"
  with assms(4) show tf: "map_of r ''available'' = Some (PBool True)
      \<or> map_of r ''available'' = Some (PBool False)"
    by (simp add: calendar_service_answer)
  assume "map_of r ''available'' \<noteq> Some (PBool True)"
  with tf have "map_of r ''available'' = Some (PBool False)"
    by blast
  with assms(1-3) r show "handle_book_appointment sv arguments w =
      (None,
       w\<lparr>callbacks := callbacks w @ [slot_unavailable_result r],
         trace := trace w @ [CheckAvailability d t, ResultCallback (slot_unavailable_result r)]\<rparr>)"
    by (simp add: handle_book_appointment_def check_availability_call_def result_callback_def
          dict_get_def)
next
  assume no: "\<forall>r. calendar_check sv d t = Inr r \<longrightarrow> map_of r ''available'' \<noteq> Some (PBool True)"
  let ?w' = "snd (handle_book_appointment sv arguments w)"
  have "calendar ?w' = calendar w \<and> outbox ?w' = outbox w \<and> call_log ?w' = call_log w
      \<and> SendConfirmationEmail pd \<notin> set (drop (length (trace w)) (trace ?w'))
      \<and> CreateCalendarEvent pd \<notin> set (drop (length (trace w)) (trace ?w'))"
  proof (cases "calendar_check sv d t")
    case (Inl e)
    with assms(1-3) show ?thesis
      by (simp add: handle_book_appointment_def check_availability_call_def)
  next
    case (Inr r)
    with no assms(4) calendar_service_answer [of cfg parse list_events d t r]
    have "map_of r ''available'' = Some (PBool False)"
      by auto
    with assms(1-3) Inr show ?thesis
      by (simp add: handle_book_appointment_def check_availability_call_def result_callback_def
            dict_get_def)
  qed
  then show "calendar ?w' = calendar w" and "outbox ?w' = outbox w"
    and "call_log ?w' = call_log w"
    and "SendConfirmationEmail pd \<notin> set (drop (length (trace w)) (trace ?w'))"
    and "CreateCalendarEvent pd \<notin> set (drop (length (trace w)) (trace ?w'))"
    by blast+
qed

text \<open>
  The C2 theorem at a booking whose calendar request fails, and at a booking of the
  slot that is already taken.
\<close>

theorem book_stops_unless_check_says_available_witness:
  "handle_book_appointment (calendar_backed_services failing_list_events)
      demo_patient_data empty_world =
     (Some (CollaboratorError ''calendar request failed''),
      empty_world\<lparr>trace := trace empty_world @
         [CheckAvailability (PStr ''2025-03-10'') (PStr ''10:00 AM'')]\<rparr>)
   \<and> calendar (snd (handle_book_appointment (calendar_backed_services demo_list_events)
                      demo_patient_data empty_world)) = calendar empty_world
   \<and> outbox (snd (handle_book_appointment (calendar_backed_services demo_list_events)
                      demo_patient_data empty_world)) = outbox empty_world"
proof -
  let ?d = "PStr ''2025-03-10''" and ?t = "PStr ''10:00 AM''"
  let ?bad = "calendar_backed_services failing_list_events"
  let ?busy = "calendar_backed_services demo_list_events"
  have dt: "dict_index demo_patient_data ''date'' = Inr ?d"
      "dict_index demo_patient_data ''time'' = Inr ?t"
    by (simp_all add: dict_index_def demo_patient_data_def)
  have bad: "extract_patient_data ?bad demo_patient_data = Inr demo_patient_data"
      "calendar_check ?bad ?d ?t = calendar_service default_config demo_parse failing_list_events ?d ?t"
    by (simp_all add: calendar_backed_services_def)
  have busy: "extract_patient_data ?busy demo_patient_data = Inr demo_patient_data"
      "calendar_check ?busy ?d ?t = calendar_service default_config demo_parse demo_list_events ?d ?t"
    by (simp_all add: calendar_backed_services_def)
  have fails: "calendar_check ?bad ?d ?t = Inl (CollaboratorError ''calendar request failed'')"
    by (simp add: calendar_backed_services_def calendar_service_def
          CalendarService_check_availability_def demo_parse_def failing_list_events_def)
  have taken: "\<forall>r. calendar_check ?busy ?d ?t = Inr r \<longrightarrow> map_of r ''available'' \<noteq> Some (PBool True)"
    by (simp add: calendar_backed_services_def calendar_service_def
          CalendarService_check_availability_def demo_parse_def demo_list_events_def
          booked_event_def check_time_conflicts_def intervals_conflict_def overlap_minutes_def
          Let_def)
  from book_stops_unless_check_says_available [OF bad(1) dt bad(2), of empty_world] fails
  have "handle_book_appointment ?bad demo_patient_data empty_world =
     (Some (CollaboratorError ''calendar request failed''),
      empty_world\<lparr>trace := trace empty_world @ [CheckAvailability ?d ?t]\<rparr>)"
    by blast
  moreover
  from book_stops_unless_check_says_available [OF busy(1) dt busy(2), of empty_world] taken
  have "calendar (snd (handle_book_appointment ?busy demo_patient_data empty_world)) =
      calendar empty_world"
    and "outbox (snd (handle_book_appointment ?busy demo_patient_data empty_world)) =
      outbox empty_world"
    by blast+
  ultimately show ?thesis by blast
qed

text \<open>
  Claim C3: when the slot passes the check, the email collaborator reports
  \<^verbatim>\<open>success: False\<close> and the calendar insertion succeeds, the handler returns
  normally and reports \<^verbatim>\<open>success: True\<close> with \<^verbatim>\<open>email_sent: False\<close>; the calendar
  holds every earlier event and the new one, and nothing was sent.
\<close>

theorem email_failure_keeps_booking:
  assumes "extract_patient_data sv arguments = Inr pd"
      and "dict_index pd ''date'' = Inr d"
      and "dict_index pd ''time'' = Inr t"
      and "calendar_check sv d t = Inr chk"
      and "truthy (dict_get chk ''available'' (PBool True))"
      and "gmail_send sv pd = Inr er"
      and "dict_get er ''success'' PNone = PBool False"
      and "calendar_insert sv pd = Inr cr"
      and "truthy (dict_get cr ''success'' PNone)"
  shows "fst (handle_book_appointment sv arguments w) = None
       \<and> calendar (snd (handle_book_appointment sv arguments w)) = calendar w @ [pd]
       \<and> outbox (snd (handle_book_appointment sv arguments w)) = outbox w
       \<and> callbacks (snd (handle_book_appointment sv arguments w)) =
           callbacks w @ [booking_result er cr pd]
       \<and> map_of (booking_result er cr pd) ''success'' = Some (PBool True)
       \<and> map_of (booking_result er cr pd) ''email_sent'' = Some (PBool False)
       \<and> trace (snd (handle_book_appointment sv arguments w)) =
           trace w @ [CheckAvailability d t, SendConfirmationEmail pd,
                      CreateCalendarEvent pd, LogCallRecord pd,
                      ResultCallback (booking_result er cr pd)]"
  using assms
  by (simp add: handle_book_appointment_def commit_booking_def check_availability_call_def
       send_confirmation_email_def create_calendar_event_def log_call_record_def
       result_callback_def booking_result_def Let_def)

text \<open>
  The hypotheses of the C3 theorem hold for the demonstration services with a failing
  email collaborator.
\<close>

theorem email_failure_keeps_booking_witness:
  "calendar (snd (handle_book_appointment (demo_services slot_available_result email_failed_result)
                    demo_patient_data empty_world)) = [demo_patient_data]
   \<and> map_of (booking_result email_failed_result [(''success'', PBool True)] demo_patient_data)
         ''email_sent'' = Some (PBool False)
   \<and> callbacks (snd (handle_book_appointment (demo_services slot_available_result email_failed_result)
                    demo_patient_data empty_world)) =
       [booking_result email_failed_result [(''success'', PBool True)] demo_patient_data]"
proof -
  let ?sv = "demo_services slot_available_result email_failed_result"
  have d: "dict_index demo_patient_data ''date'' = Inr (PStr ''2025-03-10'')"
    and t: "dict_index demo_patient_data ''time'' = Inr (PStr ''10:00 AM'')"
    by (simp_all add: dict_index_def demo_patient_data_def)
  have h: "extract_patient_data ?sv demo_patient_data = Inr demo_patient_data"
      "calendar_check ?sv (PStr ''2025-03-10'') (PStr ''10:00 AM'') = Inr slot_available_result"
      "truthy (dict_get slot_available_result ''available'' (PBool True))"
      "gmail_send ?sv demo_patient_data = Inr email_failed_result"
      "dict_get email_failed_result ''success'' PNone = PBool False"
      "calendar_insert ?sv demo_patient_data = Inr [(''success'', PBool True)]"
      "truthy (dict_get [(''success'', PBool True)] ''success'' PNone)"
    by (simp_all add: demo_services_def slot_available_result_def email_failed_result_def
          dict_get_def)
  from email_failure_keeps_booking [OF h(1) d t h(2) h(3) h(4) h(5) h(6) h(7),
      where w = empty_world]
  show ?thesis by (simp add: empty_world_def)
qed

section \<open>Availability: no conflict of positive duration\<close>

lemma intervals_conflict_minute:
  "intervals_conflict s1 e1 s2 e2 \<longleftrightarrow> (\<exists>m. s1 \<le> m \<and> m < e1 \<and> s2 \<le> m \<and> m < e2)"
proof
  assume "intervals_conflict s1 e1 s2 e2"
  then have "s1 \<le> max s1 s2 \<and> max s1 s2 < e1 \<and> s2 \<le> max s1 s2 \<and> max s1 s2 < e2"
    by (simp add: intervals_conflict_def overlap_minutes_def)
  then show "\<exists>m. s1 \<le> m \<and> m < e1 \<and> s2 \<le> m \<and> m < e2" ..
next
  assume "\<exists>m. s1 \<le> m \<and> m < e1 \<and> s2 \<le> m \<and> m < e2"
  then show "intervals_conflict s1 e1 s2 e2"
    by (auto simp: intervals_conflict_def overlap_minutes_def)
qed

text \<open>
  Claim C4: two intervals conflict exactly when they share time of positive duration
  (some whole minute lies in both; intervals that only touch at an endpoint do not
  conflict), and when the request parses and the calendar answers,
  \<^verbatim>\<open>check_availability\<close> reports \<^verbatim>\<open>available: True\<close> exactly when none of the
  listed events conflicts with the requested interval.
\<close>

theorem available_iff_no_positive_overlap:
  "(intervals_conflict s1 e1 s2 e2 \<longleftrightarrow> (\<exists>m. s1 \<le> m \<and> m < e1 \<and> s2 \<le> m \<and> m < e2))
   \<and> (intervals_conflict s1 e1 s2 e2 \<longleftrightarrow> 0 < min e1 e2 - max s1 s2)
   \<and> \<not> intervals_conflict s1 e1 e1 e2
   \<and> \<not> intervals_conflict e1 e2 s1 e1
   \<and> (parse date time = Inr start \<longrightarrow> list_events start (start + duration) = Inr events \<longrightarrow>
        answer_available
          (CalendarService_check_availability cfg parse list_events date time duration) =
        Some (\<forall>ev \<in> set events.
                \<not> intervals_conflict (event_start ev) (event_end ev) start (start + duration)))"
proof (intro conjI impI)
  show "intervals_conflict s1 e1 s2 e2 \<longleftrightarrow> (\<exists>m. s1 \<le> m \<and> m < e1 \<and> s2 \<le> m \<and> m < e2)"
    by (rule intervals_conflict_minute)
  show "intervals_conflict s1 e1 s2 e2 \<longleftrightarrow> 0 < min e1 e2 - max s1 s2"
    by (simp add: intervals_conflict_def overlap_minutes_def)
  show "\<not> intervals_conflict s1 e1 e1 e2"
    by (simp add: intervals_conflict_def overlap_minutes_def)
  show "\<not> intervals_conflict e1 e2 s1 e1"
    by (simp add: intervals_conflict_def overlap_minutes_def)
next
  assume "parse date time = Inr start" "list_events start (start + duration) = Inr events"
  then show "answer_available
          (CalendarService_check_availability cfg parse list_events date time duration) =
        Some (\<forall>ev \<in> set events.
                \<not> intervals_conflict (event_start ev) (event_end ev) start (start + duration))"
    by (auto simp: CalendarService_check_availability_def answer_available_def Let_def
          check_time_conflicts_def dict_get_def filter_empty_conv)
qed

text \<open>
  The C4 theorem at the demonstration calendar: the slot that starts when the booked
  event ends is available, the booked slot itself is not.
\<close>

theorem available_iff_no_positive_overlap_witness:
  "answer_available
     (CalendarService_check_availability default_config demo_parse demo_list_events
        ''2025-03-10'' ''10:30 AM'' 30) = Some True
   \<and> answer_available
     (CalendarService_check_availability default_config demo_parse demo_list_events
        ''2025-03-10'' ''10:00 AM'' 30) = Some False"
proof -
  have a: "demo_parse ''2025-03-10'' ''10:30 AM'' = Inr (20157 * 1440 + 630)"
      "demo_list_events (20157 * 1440 + 630) (20157 * 1440 + 630 + 30) = Inr []"
    by (simp_all add: demo_parse_def demo_list_events_def booked_event_def)
  have b: "demo_parse ''2025-03-10'' ''10:00 AM'' = Inr (20157 * 1440 + 600)"
      "demo_list_events (20157 * 1440 + 600) (20157 * 1440 + 600 + 30) = Inr [booked_event]"
    by (simp_all add: demo_parse_def demo_list_events_def booked_event_def)
  have c: "intervals_conflict (event_start booked_event) (event_end booked_event)
             (20157 * 1440 + 600) (20157 * 1440 + 600 + 30)"
    by (simp add: booked_event_def intervals_conflict_def overlap_minutes_def)
  from available_iff_no_positive_overlap
         [where parse = demo_parse and list_events = demo_list_events and cfg = default_config
            and date = "''2025-03-10''" and time = "''10:30 AM''" and duration = 30
            and start = "20157 * 1440 + 630" and events = "[]"]
       available_iff_no_positive_overlap
         [where parse = demo_parse and list_events = demo_list_events and cfg = default_config
            and date = "''2025-03-10''" and time = "''10:00 AM''" and duration = 30
            and start = "20157 * 1440 + 600" and events = "[booked_event]"]
       a b c
  show ?thesis by simp
qed

section \<open>Alternative slots: consistent, within working hours, bounded\<close>

lemma slots_conflict_sym: "slots_conflict a b = slots_conflict b a"
  by (simp add: slots_conflict_def intervals_conflict_def overlap_minutes_def min.commute max.commute)

lemma mutually_free_snoc:
  "mutually_free (xs @ [c]) \<longleftrightarrow> mutually_free xs \<and> (\<forall>k \<in> set xs. \<not> slots_conflict k c)"
  by (induction xs) (auto simp: list_all_iff)

lemma keep_consistent_free:
  "mutually_free kept \<Longrightarrow> mutually_free (keep_consistent kept cs)"
  by (induction cs arbitrary: kept) (auto simp: mutually_free_snoc list_ex_iff)

lemma keep_consistent_subset:
  "set (keep_consistent kept cs) \<subseteq> set kept \<union> set cs"
proof (induction cs arbitrary: kept)
  case Nil
  show ?case by simp
next
  case (Cons c cs)
  from Cons [of kept] Cons [of "kept @ [c]"] show ?case by auto
qed

lemma keep_consistent_nil_subset: "set (keep_consistent [] cs) \<subseteq> set cs"
  using keep_consistent_subset [of "[]" cs] by simp

lemma mutually_free_take: "mutually_free xs \<Longrightarrow> mutually_free (take n xs)"
proof (induction xs arbitrary: n)
  case Nil
  then show ?case by simp
next
  case (Cons x xs)
  show ?case
  proof (cases n)
    case 0
    then show ?thesis by simp
  next
    case (Suc m)
    have "set (take m xs) \<subseteq> set xs" by (rule set_take_subset)
    with Cons Suc show ?thesis by (auto simp: list_all_iff)
  qed
qed

lemma mutually_free_nth:
  "mutually_free xs \<Longrightarrow> i < j \<Longrightarrow> j < length xs \<Longrightarrow> \<not> slots_conflict (xs ! i) (xs ! j)"
proof (induction xs arbitrary: i j)
  case Nil
  then show ?case by simp
next
  case (Cons x xs)
  show ?case
  proof (cases i)
    case 0
    with Cons.prems obtain j' where "j = Suc j'" "j' < length xs"
      by (cases j) auto
    with Cons.prems 0 show ?thesis by (auto simp: list_all_iff)
  next
    case (Suc i')
    with Cons.prems obtain j' where "j = Suc j'" "i' < j'" "j' < length xs"
      by (cases j) auto
    with Cons Suc show ?thesis by auto
  qed
qed

lemma suggest_free: "mutually_free (suggest cfg le day0 time0 doctor wd count)"
  unfolding suggest_def by (rule mutually_free_take) (simp add: keep_consistent_free)

lemma suggest_subset:
  "set (suggest cfg le day0 time0 doctor wd count) \<subseteq> set (candidate_slots cfg doctor day0 wd)"
proof -
  have "set (suggest cfg le day0 time0 doctor wd count) \<subseteq>
          set (keep_consistent []
                (sort_key (rank_key day0 time0 doctor)
                   (filter (slot_is_free le) (candidate_slots cfg doctor day0 wd))))"
    unfolding suggest_def by (rule set_take_subset)
  also have "\<dots> \<subseteq> set (sort_key (rank_key day0 time0 doctor)
                   (filter (slot_is_free le) (candidate_slots cfg doctor day0 wd)))"
    by (rule keep_consistent_nil_subset)
  also have "\<dots> \<subseteq> set (candidate_slots cfg doctor day0 wd)"
    by auto
  finally show ?thesis .
qed

text \<open>
  Claim C5: the slots that \<open>suggest\<close> returns are pairwise free of conflicts, each lies
  within the configured working hours on a working day, and there are at most
  \<open>count\<close> of them (at most 5 for the alternatives of the availability check).
\<close>

theorem suggest_consistent_within_hours:
  "(\<forall>i < length (suggest cfg list_events day0 time0 doctor window_days count).
      \<forall>j < length (suggest cfg list_events day0 time0 doctor window_days count).
        i \<noteq> j \<longrightarrow>
        \<not> slots_conflict (suggest cfg list_events day0 time0 doctor window_days count ! i)
                         (suggest cfg list_events day0 time0 doctor window_days count ! j))
   \<and> (\<forall>s \<in> set (suggest cfg list_events day0 time0 doctor window_days count).
        within_working_hours cfg s)
   \<and> length (suggest cfg list_events day0 time0 doctor window_days count) \<le> count
   \<and> length (suggest_alternative_slots cfg list_events start_datetime conflicts) \<le> 5"
proof (intro conjI allI impI ballI)
  fix i j
  let ?xs = "suggest cfg list_events day0 time0 doctor window_days count"
  assume "i < length ?xs" "j < length ?xs" "i \<noteq> j"
  then consider "i < j" | "j < i" by linarith
  then show "\<not> slots_conflict (?xs ! i) (?xs ! j)"
  proof cases
    case 1
    with \<open>j < length ?xs\<close> show ?thesis
      by (intro mutually_free_nth suggest_free)
  next
    case 2
    with \<open>i < length ?xs\<close> have "\<not> slots_conflict (?xs ! j) (?xs ! i)"
      by (intro mutually_free_nth suggest_free)
    then show ?thesis by (simp add: slots_conflict_sym)
  qed
next
  fix s
  assume "s \<in> set (suggest cfg list_events day0 time0 doctor window_days count)"
  with suggest_subset have "s \<in> set (candidate_slots cfg doctor day0 window_days)"
    by blast
  then show "within_working_hours cfg s"
    by (simp add: candidate_slots_def)
next
  show "length (suggest cfg list_events day0 time0 doctor window_days count) \<le> count"
    by (simp add: suggest_def)
  show "length (suggest_alternative_slots cfg list_events start_datetime conflicts) \<le> 5"
    by (simp add: suggest_alternative_slots_def suggest_def)
qed

text \<open>
  The C5 theorem on the morning of the demonstration calendar: the two alternatives
  nearest to the booked 10:00 slot are 9:30 and 10:30.
\<close>

theorem suggest_consistent_within_hours_witness:
  "suggest morning_config demo_list_events 20157 600 None 1 2 =
     [morning_slot 570, morning_slot 630]
   \<and> \<not> slots_conflict (morning_slot 570) (morning_slot 630)
   \<and> within_working_hours morning_config (morning_slot 570)
   \<and> within_working_hours morning_config (morning_slot 630)
   \<and> length (suggest morning_config demo_list_events 20157 600 None 1 2) \<le> 2"
proof -
  let ?xs = "suggest morning_config demo_list_events 20157 600 None 1 2"
  have e: "?xs = [morning_slot 570, morning_slot 630]"
    by code_simp
  note T = suggest_consistent_within_hours
    [where cfg = morning_config and list_events = demo_list_events and ?day0.0 = 20157
       and ?time0.0 = 600 and doctor = None and window_days = 1 and count = 2]
  from T [unfolded e, THEN conjunct1, rule_format, of 0 1]
  have "\<not> slots_conflict (morning_slot 570) (morning_slot 630)"
    by simp
  moreover from T [unfolded e, THEN conjunct2, THEN conjunct1]
  have "within_working_hours morning_config (morning_slot 570)"
    and "within_working_hours morning_config (morning_slot 630)"
    by simp_all
  moreover from T [THEN conjunct2, THEN conjunct2, THEN conjunct1]
  have "length ?xs \<le> 2" .
  ultimately show ?thesis
    using e by blast
qed

section \<open>Cancellation: removal if and only if a stored appointment matches\<close>

lemma length_remove1_member: "x \<in> set xs \<Longrightarrow> Suc (length (remove1 x xs)) = length xs"
  by (induction xs) auto

lemma remove1_changes: "x \<in> set xs \<Longrightarrow> remove1 x xs \<noteq> xs"
  using length_remove1_member [of x xs] by auto

text \<open>
  Claim C6: an event matches a cancellation request exactly when it is on the requested
  date, belongs to the requested doctor if one is given, lies at most 15 minutes from
  the requested time, carries the given patient name up to letter case and, if an email
  is supplied, that email. \<open>cancel\<close> reports found and removes an appointment exactly
  when some calendar event matches, and then removes exactly one matching event.
  Without a match it reports not found and leaves the state as it was, so repeating the
  failed request gives the same result.
\<close>

theorem cancel_iff_match:
  "(cancel_matches rq ev \<longleftrightarrow>
      event_start ev div 1440 = req_date rq
      \<and> (req_doctor rq = None \<or> req_doctor rq = Some (event_doctor ev))
      \<and> \<bar>event_start ev mod 1440 - req_time rq\<bar> \<le> 15
      \<and> lower (event_patient ev) = lower (req_patient_name rq)
      \<and> (req_email rq = None \<or> req_email rq = Some (event_email ev)))
   \<and> (appointments (snd (cancel notice_sent rq c)) \<noteq> appointments c
      \<longleftrightarrow> (\<exists>ev \<in> set (appointments c).
             event_start ev div 1440 = req_date rq
             \<and> (req_doctor rq = None \<or> req_doctor rq = Some (event_doctor ev))
             \<and> \<bar>event_start ev mod 1440 - req_time rq\<bar> \<le> 15
             \<and> lower (event_patient ev) = lower (req_patient_name rq)
             \<and> (req_email rq = None \<or> req_email rq = Some (event_email ev))))
   \<and> (found (fst (cancel notice_sent rq c))
      \<longleftrightarrow> (\<exists>ev \<in> set (appointments c). cancel_matches rq ev))
   \<and> ((\<exists>ev \<in> set (appointments c). cancel_matches rq ev) \<longrightarrow>
        (\<exists>ev \<in> set (appointments c). cancel_matches rq ev
           \<and> appointments (snd (cancel notice_sent rq c)) = remove1 ev (appointments c))
        \<and> Suc (length (appointments (snd (cancel notice_sent rq c)))) = length (appointments c))
   \<and> ((\<forall>ev \<in> set (appointments c). \<not> cancel_matches rq ev) \<longrightarrow>
        cancel notice_sent rq c = (\<lparr>cancelled = False, found = False\<rparr>, c)
        \<and> cancel notice_sent rq (snd (cancel notice_sent rq c)) = cancel notice_sent rq c)"
proof -
  have crit: "cancel_matches rq' ev' \<longleftrightarrow>
      event_start ev' div 1440 = req_date rq'
      \<and> (req_doctor rq' = None \<or> req_doctor rq' = Some (event_doctor ev'))
      \<and> \<bar>event_start ev' mod 1440 - req_time rq'\<bar> \<le> 15
      \<and> lower (event_patient ev') = lower (req_patient_name rq')
      \<and> (req_email rq' = None \<or> req_email rq' = Some (event_email ev'))" for rq' ev'
    by (auto simp: cancel_matches_def split: option.splits)
  have rest: "(appointments (snd (cancel notice_sent rq c)) \<noteq> appointments c
      \<longleftrightarrow> (\<exists>ev \<in> set (appointments c). cancel_matches rq ev))
   \<and> (found (fst (cancel notice_sent rq c))
      \<longleftrightarrow> (\<exists>ev \<in> set (appointments c). cancel_matches rq ev))
   \<and> ((\<exists>ev \<in> set (appointments c). cancel_matches rq ev) \<longrightarrow>
        (\<exists>ev \<in> set (appointments c). cancel_matches rq ev
           \<and> appointments (snd (cancel notice_sent rq c)) = remove1 ev (appointments c))
        \<and> Suc (length (appointments (snd (cancel notice_sent rq c)))) = length (appointments c))
   \<and> ((\<forall>ev \<in> set (appointments c). \<not> cancel_matches rq ev) \<longrightarrow>
        cancel notice_sent rq c = (\<lparr>cancelled = False, found = False\<rparr>, c)
        \<and> cancel notice_sent rq (snd (cancel notice_sent rq c)) = cancel notice_sent rq c)"
  proof (cases "find (cancel_matches rq) (appointments c)")
    case None
    then have no: "\<forall>ev \<in> set (appointments c). \<not> cancel_matches rq ev"
      by (simp add: find_None_iff)
    from None have "cancel notice_sent rq c = (\<lparr>cancelled = False, found = False\<rparr>, c)"
      by (simp add: cancel_def)
    with no show ?thesis
      by auto
  next
    case (Some ev0)
    then have m: "cancel_matches rq ev0" and mem: "ev0 \<in> set (appointments c)"
      by (auto simp: find_Some_iff)
    from Some have ap: "appointments (snd (cancel notice_sent rq c)) = remove1 ev0 (appointments c)"
      and fo: "found (fst (cancel notice_sent rq c))"
      by (simp_all add: cancel_def)
    from mem have "remove1 ev0 (appointments c) \<noteq> appointments c"
      by (rule remove1_changes)
    moreover from mem have "Suc (length (remove1 ev0 (appointments c))) = length (appointments c)"
      by (rule length_remove1_member)
    ultimately show ?thesis
      using m mem ap fo by auto
  qed
  from rest show ?thesis
    unfolding crit [symmetric] using crit [of rq ev] by blast
qed

text \<open>
  The C6 theorem at the demonstration calendar, whose one appointment is John Smith with
  Dr. Rao at 10:00. Found: a request 15 minutes off, a request without a doctor, a
  request with the stored email. Not found: 16 minutes off, another doctor, another
  email, another name; the failed request changes nothing.
\<close>

theorem cancel_iff_match_witness:
  "found (fst (cancel True (demo_cancel 615) demo_clinic))
   \<and> appointments (snd (cancel True (demo_cancel 615) demo_clinic)) \<noteq> appointments demo_clinic
   \<and> found (fst (cancel True ((demo_cancel 585)\<lparr>req_doctor := None\<rparr>) demo_clinic))
   \<and> found (fst (cancel True ((demo_cancel 600)\<lparr>req_email := Some ''john@example.com''\<rparr>)
                   demo_clinic))
   \<and> cancel True (demo_cancel 616) demo_clinic =
       (\<lparr>cancelled = False, found = False\<rparr>, demo_clinic)
   \<and> \<not> found (fst (cancel True ((demo_cancel 600)\<lparr>req_doctor := Some ''Dr. Patel''\<rparr>)
                     demo_clinic))
   \<and> \<not> found (fst (cancel True ((demo_cancel 600)\<lparr>req_email := Some ''jane@example.com''\<rparr>)
                     demo_clinic))
   \<and> \<not> found (fst (cancel True ((demo_cancel 600)\<lparr>req_patient_name := ''Jon Smith''\<rparr>)
                     demo_clinic))"
proof -
  have ap: "appointments demo_clinic = [booked_event]"
    by (simp add: demo_clinic_def)
  have ev: "event_start booked_event div 1440 = 20157" "event_start booked_event mod 1440 = 600"
      "event_doctor booked_event = ''Dr. Rao''" "event_email booked_event = ''john@example.com''"
      "lower (event_patient booked_event) = ''john smith''"
    by (simp_all add: booked_event_def lower_def lower_char_def)
  have rq: "req_date (demo_cancel t) = 20157" "req_time (demo_cancel t) = t"
      "req_doctor (demo_cancel t) = Some ''Dr. Rao''" "req_email (demo_cancel t) = None"
      "lower (req_patient_name (demo_cancel t)) = ''john smith''" for t
    by (simp_all add: demo_cancel_def lower_def lower_char_def)
  have jon: "lower ''Jon Smith'' \<noteq> ''john smith''"
    by (simp add: lower_def lower_char_def)
  note T = cancel_iff_match [where notice_sent = True and c = demo_clinic and ev = booked_event]
  from T [where rq = "demo_cancel 615"] ap ev rq
  have a: "found (fst (cancel True (demo_cancel 615) demo_clinic))"
    and a': "appointments (snd (cancel True (demo_cancel 615) demo_clinic)) \<noteq> appointments demo_clinic"
    by simp_all
  from T [where rq = "(demo_cancel 585)\<lparr>req_doctor := None\<rparr>"] ap ev rq
  have b: "found (fst (cancel True ((demo_cancel 585)\<lparr>req_doctor := None\<rparr>) demo_clinic))"
    by simp
  from T [where rq = "(demo_cancel 600)\<lparr>req_email := Some ''john@example.com''\<rparr>"] ap ev rq
  have c: "found (fst (cancel True ((demo_cancel 600)\<lparr>req_email := Some ''john@example.com''\<rparr>)
                   demo_clinic))"
    by simp
  from T [where rq = "demo_cancel 616"] ap ev rq
  have d: "cancel True (demo_cancel 616) demo_clinic =
       (\<lparr>cancelled = False, found = False\<rparr>, demo_clinic)"
    by simp
  from T [where rq = "(demo_cancel 600)\<lparr>req_doctor := Some ''Dr. Patel''\<rparr>"] ap ev rq
  have e: "\<not> found (fst (cancel True ((demo_cancel 600)\<lparr>req_doctor := Some ''Dr. Patel''\<rparr>)
                     demo_clinic))"
    by simp
  from T [where rq = "(demo_cancel 600)\<lparr>req_email := Some ''jane@example.com''\<rparr>"] ap ev rq
  have f: "\<not> found (fst (cancel True ((demo_cancel 600)\<lparr>req_email := Some ''jane@example.com''\<rparr>)
                     demo_clinic))"
    by simp
  from T [where rq = "(demo_cancel 600)\<lparr>req_patient_name := ''Jon Smith''\<rparr>"] ap ev rq jon
  have g: "\<not> found (fst (cancel True ((demo_cancel 600)\<lparr>req_patient_name := ''Jon Smith''\<rparr>)
                     demo_clinic))"
    by simp
  from a a' b c d e f g show ?thesis by blast
qed

section \<open>Customer identification, call-record updates and session cleanup\<close>

text \<open>
  Claim C7: a phone number found in the session memory is \<open>existing\<close> with the cached
  record and the state is unchanged; otherwise a phone number for which the durable
  sheet answers with a record (a non-empty row) is \<open>returning\<close> with that record, as
  \<^verbatim>\<open>convert_to_dict\<close> renders it, which is also stored in the session memory;
  otherwise (no sheet service, no answer, or an empty one) it is \<open>new\<close> with no record,
  and the state is unchanged.
\<close>

theorem identify_resolution_order:
  "(patient_database st phone = Some cached \<longrightarrow>
      detect_customer_type cvt phone st = ((''existing'', Some cached), st))
   \<and> (patient_database st phone = None \<longrightarrow> global_sheets_service st = Some lookup \<longrightarrow>
        lookup phone = Some row \<longrightarrow> row \<noteq> [] \<longrightarrow>
        detect_customer_type cvt phone st =
          ((''returning'', Some (cvt row)),
           st\<lparr>patient_database := (patient_database st)(phone \<mapsto> cvt row)\<rparr>))
   \<and> (patient_database st phone = None \<longrightarrow>
        (case global_sheets_service st of
           None \<Rightarrow> True
         | Some lookup' \<Rightarrow> lookup' phone = None \<or> lookup' phone = Some []) \<longrightarrow>
        detect_customer_type cvt phone st = ((''new'', None), st))"
  by (auto simp add: detect_customer_type_def Let_def split: option.splits)

text \<open>
  The branches of the C7 theorem at the demonstration sheet: a cached phone number,
  the phone number of the sheet's patient, an unknown phone number, and a phone number
  for which the sheet answers with an empty row.
\<close>

theorem identify_resolution_order_witness:
  "detect_customer_type demo_convert demo_phone
      (empty_state\<lparr>patient_database := [demo_phone \<mapsto> demo_convert demo_row]\<rparr>) =
     ((''existing'', Some (demo_convert demo_row)),
      empty_state\<lparr>patient_database := [demo_phone \<mapsto> demo_convert demo_row]\<rparr>)
   \<and> detect_customer_type demo_convert demo_phone empty_state =
     ((''returning'', Some (demo_convert demo_row)),
      empty_state\<lparr>patient_database := (patient_database empty_state)(demo_phone \<mapsto> demo_convert demo_row)\<rparr>)
   \<and> detect_customer_type demo_convert (Some ''+91-0000000000'') empty_state =
     ((''new'', None), empty_state)
   \<and> detect_customer_type demo_convert demo_phone
        (empty_state\<lparr>global_sheets_service := Some (\<lambda>p. Some [])\<rparr>) =
     ((''new'', None), empty_state\<lparr>global_sheets_service := Some (\<lambda>p. Some [])\<rparr>)"
proof -
  let ?cached = "empty_state\<lparr>patient_database := [demo_phone \<mapsto> demo_convert demo_row]\<rparr>"
  let ?blank = "empty_state\<lparr>global_sheets_service := Some (\<lambda>p. Some [])\<rparr>"
  have a: "patient_database ?cached demo_phone = Some (demo_convert demo_row)"
    by simp
  have b: "patient_database empty_state demo_phone = None"
      "global_sheets_service empty_state = Some demo_sheet"
      "demo_sheet demo_phone = Some demo_row" "demo_row \<noteq> []"
    by (simp_all add: empty_state_def demo_sheet_def demo_row_def)
  have c: "patient_database empty_state (Some ''+91-0000000000'') = None"
      "(case global_sheets_service empty_state of None \<Rightarrow> True
        | Some lookup' \<Rightarrow> lookup' (Some ''+91-0000000000'') = None
            \<or> lookup' (Some ''+91-0000000000'') = Some [])"
    by (simp_all add: empty_state_def demo_sheet_def demo_phone_def)
  have d: "patient_database ?blank demo_phone = None"
      "(case global_sheets_service ?blank of None \<Rightarrow> True
        | Some lookup' \<Rightarrow> lookup' demo_phone = None \<or> lookup' demo_phone = Some [])"
    by (simp_all add: empty_state_def)
  from identify_resolution_order [of ?cached demo_phone "demo_convert demo_row" demo_convert] a
  have "detect_customer_type demo_convert demo_phone ?cached =
      ((''existing'', Some (demo_convert demo_row)), ?cached)"
    by blast
  moreover
  from identify_resolution_order [of empty_state demo_phone _ demo_convert demo_sheet demo_row] b
  have "detect_customer_type demo_convert demo_phone empty_state =
     ((''returning'', Some (demo_convert demo_row)),
      empty_state\<lparr>patient_database := (patient_database empty_state)(demo_phone \<mapsto> demo_convert demo_row)\<rparr>)"
    by blast
  moreover
  from identify_resolution_order [of empty_state "Some ''+91-0000000000''" _ demo_convert] c
  have "detect_customer_type demo_convert (Some ''+91-0000000000'') empty_state =
     ((''new'', None), empty_state)"
    by blast
  moreover
  from identify_resolution_order [of ?blank demo_phone _ demo_convert] d
  have "detect_customer_type demo_convert demo_phone ?blank = ((''new'', None), ?blank)"
    by blast
  ultimately show ?thesis by blast
qed

text \<open>
  Claim C9: for a session id without an entry in \<^verbatim>\<open>session_call_records\<close> the update
  returns at once and the whole state is unchanged.
\<close>

theorem update_unknown_session_is_noop:
  "session_call_records st sid = None \<Longrightarrow>
     update_call_record_from_function cvt sid function_name arguments st = st"
  by (simp add: update_call_record_from_function_def)

text \<open>
  The C9 theorem for a booking update addressed to a session that does not exist.
\<close>

theorem update_unknown_session_is_noop_witness:
  "session_call_records demo_session_state ''s-2'' = None
   \<and> update_call_record_from_function demo_convert ''s-2'' ''book_appointment''
        [''phone'' \<mapsto> ''+91-9876543210'', ''patient_name'' \<mapsto> ''John Smith'']
        demo_session_state = demo_session_state"
proof -
  have h: "session_call_records demo_session_state ''s-2'' = None"
    by (simp add: demo_session_state_def empty_state_def)
  from update_unknown_session_is_noop [OF h] h show ?thesis by simp
qed

text \<open>
  Claim C8 on a session as \<^verbatim>\<open>create_session\<close> makes it. \<^verbatim>\<open>CallRecord.__init__\<close> names
  the creation time \<^verbatim>\<open>timestamp\<close>, while \<^verbatim>\<open>cleanup_session\<close> reads \<^verbatim>\<open>start_time\<close>:
  the cleanup stops with an AttributeError, nothing is persisted, and the session keeps
  its entries in the call records and the active sessions. A booking update in between
  does not change that.
\<close>

theorem cleanup_of_created_session_raises:
  "cleanup_session elapsed now sid (snd (create_session sid uuid t0 websocket voice_id st)) =
     (Some (AttributeError ''start_time''), snd (create_session sid uuid t0 websocket voice_id st))
   \<and> saved_call_records
        (snd (cleanup_session elapsed now sid
                (snd (create_session sid uuid t0 websocket voice_id st)))) =
       saved_call_records st
   \<and> session_call_records
        (snd (cleanup_session elapsed now sid
                (snd (create_session sid uuid t0 websocket voice_id st)))) sid =
       Some (CallRecord_init uuid t0 sid None)
   \<and> active_sessions
        (snd (cleanup_session elapsed now sid
                (snd (create_session sid uuid t0 websocket voice_id st)))) sid \<noteq> None
   \<and> fst (cleanup_session elapsed now sid
            (update_call_record_from_function cvt sid ''book_appointment'' arguments
               (snd (create_session sid uuid t0 websocket voice_id st)))) =
       Some (AttributeError ''start_time'')"
proof -
  let ?st = "snd (create_session sid uuid t0 websocket voice_id st)"
  have r: "session_call_records ?st sid = Some (CallRecord_init uuid t0 sid None)"
    by (simp add: create_session_def Let_def)
  have raise: "cleanup_session elapsed now sid ?st = (Some (AttributeError ''start_time''), ?st)"
    by (simp add: cleanup_session_def r CallRecord_init_def)
  have act: "active_sessions ?st sid \<noteq> None" and saved: "saved_call_records ?st = saved_call_records st"
    by (simp_all add: create_session_def Let_def)
  obtain r' where upd: "session_call_records
      (update_call_record_from_function cvt sid ''book_appointment'' arguments ?st) sid = Some r'"
    and abs: "start_time r' = Absent"
    by (cases "detect_customer_type cvt (arguments ''phone'') ?st")
       (auto simp: update_call_record_from_function_def r CallRecord_init_def Let_def
          split: option.splits)
  from upd abs have "fst (cleanup_session elapsed now sid
      (update_call_record_from_function cvt sid ''book_appointment'' arguments ?st)) =
       Some (AttributeError ''start_time'')"
    by (simp add: cleanup_session_def)
  with raise r act saved show ?thesis by simp
qed

section \<open>Availability cache: only available results are kept\<close>

lemma fetch_fresh_inv:
  "only_available_cached cache \<Longrightarrow>
   only_available_cached (fst (snd (fetch_fresh fetch cs date time cache)))"
  by (auto simp: only_available_cached_def fetch_fresh_def split: sum.splits if_splits)

lemma fetch_fresh_result:
  "fst (fetch_fresh fetch cs date time cache) = Inr r \<Longrightarrow>
   fetch date time = Inr r \<and> snd (snd (fetch_fresh fetch cs date time cache)) = [(date, time)]"
  by (auto simp: fetch_fresh_def split: sum.splits if_splits)

lemma fetch_fresh_stores:
  "fst (snd (fetch_fresh fetch cs date time cache)) k \<noteq> cache k \<Longrightarrow>
   k = cache_key date time \<and>
   (\<exists>r now. fst (snd (fetch_fresh fetch cs date time cache)) k = Some (r, now)
      \<and> fetch date time = Inr r \<and> cs = Inr now \<and> truthy (dict_get r ''available'' PNone))"
  by (auto simp: fetch_fresh_def split: sum.splits if_splits)

text \<open>
  Claim C10: the empty cache holds only available results and every call keeps it so;
  an entry changes only at the key of the query and only to a freshly fetched result
  whose \<^verbatim>\<open>available\<close> entry is true; hence every answer that is not available is the
  result of a calendar fetch made by that very call, while a cached entry younger than
  the TTL is returned without a fetch.
\<close>

theorem cache_serves_only_available:
  "only_available_cached Map.empty
   \<and> (only_available_cached cache \<longrightarrow>
        only_available_cached
          (fst (snd (AvailabilityCache_check_availability ttl fetch cl cs date time cache))))
   \<and> (fst (snd (AvailabilityCache_check_availability ttl fetch cl cs date time cache)) k \<noteq> cache k \<longrightarrow>
        k = cache_key date time
        \<and> (\<exists>r now. fst (snd (AvailabilityCache_check_availability ttl fetch cl cs date time cache)) k
                      = Some (r, now)
             \<and> fetch date time = Inr r \<and> truthy (dict_get r ''available'' PNone)))
   \<and> (only_available_cached cache \<longrightarrow>
        fst (AvailabilityCache_check_availability ttl fetch cl cs date time cache) = Inr r \<longrightarrow>
        \<not> truthy (dict_get r ''available'' PNone) \<longrightarrow>
        fetch date time = Inr r
        \<and> snd (snd (AvailabilityCache_check_availability ttl fetch cl cs date time cache)) =
            [(date, time)])
   \<and> (cache (cache_key date time) = Some (r', stamp) \<longrightarrow> cl = Inr now \<longrightarrow> now - stamp < ttl \<longrightarrow>
        AvailabilityCache_check_availability ttl fetch cl cs date time cache = (Inr r', cache, []))"
proof (intro conjI impI)
  show "only_available_cached Map.empty"
    by (simp add: only_available_cached_def)
next
  assume "only_available_cached cache"
  then show "only_available_cached
          (fst (snd (AvailabilityCache_check_availability ttl fetch cl cs date time cache)))"
    by (auto simp: AvailabilityCache_check_availability_def fetch_fresh_inv
          split: option.splits sum.splits)
next
  assume "fst (snd (AvailabilityCache_check_availability ttl fetch cl cs date time cache)) k \<noteq> cache k"
  then have *: "fst (snd (fetch_fresh fetch cs date time cache)) k \<noteq> cache k"
     and **: "fst (snd (AvailabilityCache_check_availability ttl fetch cl cs date time cache)) =
           fst (snd (fetch_fresh fetch cs date time cache))"
    by (auto simp: AvailabilityCache_check_availability_def split: option.splits sum.splits if_splits)
  from fetch_fresh_stores [OF *] ** 
  show "k = cache_key date time" 
    and "\<exists>r now. fst (snd (AvailabilityCache_check_availability ttl fetch cl cs date time cache)) k
                      = Some (r, now)
             \<and> fetch date time = Inr r \<and> truthy (dict_get r ''available'' PNone)"
    by auto
next
  assume inv: "only_available_cached cache"
    and res: "fst (AvailabilityCache_check_availability ttl fetch cl cs date time cache) = Inr r"
    and neg: "\<not> truthy (dict_get r ''available'' PNone)"
  have "AvailabilityCache_check_availability ttl fetch cl cs date time cache =
          fetch_fresh fetch cs date time cache"
  proof (cases "cache (cache_key date time)")
    case None
    then show ?thesis by (simp add: AvailabilityCache_check_availability_def)
  next
    case (Some entry)
    obtain r0 stamp where entry: "entry = (r0, stamp)" by (cases entry)
    from inv Some entry have "truthy (dict_get r0 ''available'' PNone)"
      unfolding only_available_cached_def by blast
    with res neg Some entry show ?thesis
      by (auto simp: AvailabilityCache_check_availability_def split: sum.splits if_splits)
  qed
  with res fetch_fresh_result [of fetch cs date time cache r]
  show "fetch date time = Inr r"
    and "snd (snd (AvailabilityCache_check_availability ttl fetch cl cs date time cache)) =
            [(date, time)]"
    by auto
next
  assume "cache (cache_key date time) = Some (r', stamp)" "cl = Inr now" "now - stamp < ttl"
  then show "AvailabilityCache_check_availability ttl fetch cl cs date time cache = (Inr r', cache, [])"
    by (simp add: AvailabilityCache_check_availability_def)
qed

text \<open>
  The C10 theorem at a cache that holds the 11:00 slot: the 11:00 query is answered
  from the cache, the busy 10:00 query from a fetch.
\<close>

theorem cache_serves_only_available_witness:
  "only_available_cached demo_cache
   \<and> AvailabilityCache_check_availability 300 demo_fetch (Inr 250) (Inr 250)
        ''2025-03-10'' ''11:00 AM'' demo_cache =
       (Inr slot_available_result, demo_cache, [])
   \<and> snd (snd (AvailabilityCache_check_availability 300 demo_fetch (Inr 250) (Inr 250)
        ''2025-03-10'' ''10:00 AM'' demo_cache)) = [(''2025-03-10'', ''10:00 AM'')]
   \<and> only_available_cached
        (fst (snd (AvailabilityCache_check_availability 300 demo_fetch (Inr 250) (Inr 250)
           ''2025-03-10'' ''10:00 AM'' demo_cache)))"
proof -
  have inv: "only_available_cached demo_cache"
    by (simp add: only_available_cached_def demo_cache_def slot_available_result_def dict_get_def)
  have hit: "demo_cache (cache_key ''2025-03-10'' ''11:00 AM'') = Some (slot_available_result, 100)"
      "(Inr 250 :: error + int) = Inr 250" "(250::int) - 100 < 300"
    by (simp_all add: demo_cache_def)
  have busy: "fst (AvailabilityCache_check_availability 300 demo_fetch (Inr 250) (Inr 250)
        ''2025-03-10'' ''10:00 AM'' demo_cache) = Inr slot_busy_result"
      "\<not> truthy (dict_get slot_busy_result ''available'' PNone)"
    by (simp_all add: AvailabilityCache_check_availability_def fetch_fresh_def demo_fetch_def
          demo_cache_def cache_key_def slot_busy_result_def dict_get_def)
  note T = cache_serves_only_available
    [where cache = demo_cache and ttl = 300 and fetch = demo_fetch and cl = "Inr 250"
       and cs = "Inr 250" and date = "''2025-03-10''"]
  from T [where time = "''11:00 AM''" and r' = slot_available_result and stamp = 100 and now = 250]
    hit
  have "AvailabilityCache_check_availability 300 demo_fetch (Inr 250) (Inr 250)
        ''2025-03-10'' ''11:00 AM'' demo_cache =
       (Inr slot_available_result, demo_cache, [])"
    by blast
  moreover from T [where time = "''10:00 AM''" and r = slot_busy_result] inv busy
  have "snd (snd (AvailabilityCache_check_availability 300 demo_fetch (Inr 250) (Inr 250)
        ''2025-03-10'' ''10:00 AM'' demo_cache)) = [(''2025-03-10'', ''10:00 AM'')]"
    and "only_available_cached
        (fst (snd (AvailabilityCache_check_availability 300 demo_fetch (Inr 250) (Inr 250)
           ''2025-03-10'' ''10:00 AM'' demo_cache)))"
    by blast+
  ultimately show ?thesis using inv by blast
qed

end
